theory Spec2Isabelle
  imports Complex_Main "HOL-Library.Multiset"
begin

section \<open>JavaScript values, calls and promises\<close>

text \<open>
  The package exports two higher-order functions, \<open>Maybe\<close> and \<open>AsyncMaybe\<close>. Both are
  generic in the validated type \<open>T\<close> and in the transform's result type \<open>U\<close>, and both
  return a two-slot array typed \<open>[string | null, U | null]\<close>.

  TypeScript's unions are untagged: a slot of type \<open>U | null\<close> holds whatever the
  transform returned, and that may itself be \<open>null\<close> or \<open>undefined\<close> (the examples of
  the package pass the transform \<open>() => {}\<close>). A slot is therefore a value of \<open>'a js\<close>:
  \<open>null\<close>, \<open>undefined\<close>, or a proper value.
\<close>

datatype 'a js = JNull | JUndefined | JVal 'a

fun absent :: "'a js \<Rightarrow> bool" where
  "absent JNull = True"
| "absent JUndefined = True"
| "absent (JVal v) = False"

definition present :: "'a js \<Rightarrow> bool" where
  "present v = (\<not> absent v)"

text \<open>
  A call of a function returns a value, throws one, or never comes back
  (\<open>() => { for (;;) {} }\<close>).
\<close>

datatype ('e, 'a) call = Returns 'a | Throws 'e | Diverges

text \<open>
  A promise is represented by how it ends: fulfilled with a value, rejected with a
  cause, or never settled (\<open>new Promise(() => {})\<close>).
\<close>

datatype ('e, 'a) promise = Fulfilled 'a | Rejected 'e | Unsettled

text \<open>
  The body of an \<open>async\<close> function runs until it returns or throws, or it never
  finishes: it waits for ever at an \<open>await\<close> whose promise never settles, or it is
  stuck in a call that never comes back.
\<close>

datatype ('e, 'a) async = Done 'a | Raised 'e | Suspended

fun await :: "('e, 'a) promise \<Rightarrow> ('e, 'a) async" where
  "await (Fulfilled v) = Done v"
| "await (Rejected e) = Raised e"
| "await Unsettled = Suspended"

fun invoke :: "('e, 'a) call \<Rightarrow> ('e, 'a) async" where
  "invoke (Returns v) = Done v"
| "invoke (Throws e) = Raised e"
| "invoke Diverges = Suspended"

fun and_then :: "('e, 'a) async \<Rightarrow> ('a \<Rightarrow> ('e, 'b) async) \<Rightarrow> ('e, 'b) async" where
  "and_then (Done v) k = k v"
| "and_then (Raised e) k = Raised e"
| "and_then Suspended k = Suspended"

fun try_catch :: "('e, 'a) async \<Rightarrow> ('e \<Rightarrow> ('e, 'a) async) \<Rightarrow> ('e, 'a) async" where
  "try_catch (Done v) h = Done v"
| "try_catch (Raised e) h = h e"
| "try_catch Suspended h = Suspended"

fun async_function :: "('e, 'a) async \<Rightarrow> ('e, 'a) promise" where
  "async_function (Done v) = Fulfilled v"
| "async_function (Raised e) = Rejected e"
| "async_function Suspended = Unsettled"

section \<open>The validation engine's contract\<close>

text \<open>
  The schema is an object of the external validation library. The two functions use
  three things of it: \<open>safeParse\<close>, \<open>safeParseAsync\<close>, and, of a failure outcome, the
  \<open>message\<close> of its \<open>error\<close>. The outcome is the library's tagged union
  \<open>{success: true, data} | {success: false, error}\<close>; the code reads the error with
  \<open>result.error?.message\<close>, so the error object may be missing.

  The schema is a parameter of everything below. Its input type \<open>'i\<close> is what the
  caller hands over at run time, its output type \<open>'t\<close> is the validated data.
\<close>

record zod_error =
  message :: string

datatype 't safe_parse_return =
    SafeParseSuccess 't
  | SafeParseError "zod_error option"

record ('e, 'i, 't) zod_schema =
  safeParse :: "'i \<Rightarrow> ('e, 't safe_parse_return) call"
  safeParseAsync :: "'i \<Rightarrow> ('e, ('e, 't safe_parse_return) promise) call"

text \<open>\<open>result.error?.message\<close>: \<open>undefined\<close> when there is no error object.\<close>

fun error_message :: "zod_error option \<Rightarrow> string js" where
  "error_message None = JUndefined"
| "error_message (Some err) = JVal (message err)"

section \<open>Maybe and AsyncMaybe\<close>

text \<open>
  \<^verbatim>\<open>
  export const Maybe = (fn, schema) => (data) => {
    const result = schema.safeParse(data);
    return result.success
        ? [null, fn(result.data)]
        : [result.error?.message , null];
  };
  \<close>
  Nothing is caught: what \<open>safeParse\<close> or \<open>fn\<close> throws leaves the function, and the
  function comes back only if both calls do.
\<close>

definition Maybe ::
  "('t \<Rightarrow> ('e, 'u js) call) \<Rightarrow> ('e, 'i, 't) zod_schema \<Rightarrow> 'i \<Rightarrow> ('e, string js \<times> 'u js) call"
where
  "Maybe fn schema data =
     (case safeParse schema data of
        Throws thrown \<Rightarrow> Throws thrown
      | Diverges \<Rightarrow> Diverges
      | Returns result \<Rightarrow>
          (case result of
             SafeParseSuccess d \<Rightarrow>
               (case fn d of
                  Throws thrown \<Rightarrow> Throws thrown
                | Diverges \<Rightarrow> Diverges
                | Returns v \<Rightarrow> Returns (JNull, v))
           | SafeParseError err \<Rightarrow> Returns (error_message err, JNull)))"

text \<open>
  \<^verbatim>\<open>
  export const AsyncMaybe = (fn, schema) => async (data) => {
    try {
      const result = await schema.safeParseAsync(await data);
      return result.success ? [null, fn(result.data)] : [result.error?.message , null];
    } catch (error) {
      return ['Unknown error', null];
    }
  };
  \<close>
  The \<open>try\<close> block holds the whole body: both awaits, the call of
  \<open>safeParseAsync\<close> and the call of \<open>fn\<close>.
\<close>

definition try_block ::
  "('t \<Rightarrow> ('e, 'u js) call) \<Rightarrow> ('e, 'i, 't) zod_schema \<Rightarrow> ('e, 'i) promise
     \<Rightarrow> ('e, string js \<times> 'u js) async"
where
  "try_block fn schema data =
     and_then (await data) (\<lambda>x.
     and_then (invoke (safeParseAsync schema x)) (\<lambda>pending.
     and_then (await pending) (\<lambda>result.
       case result of
         SafeParseSuccess d \<Rightarrow> and_then (invoke (fn d)) (\<lambda>v. Done (JNull, v))
       | SafeParseError err \<Rightarrow> Done (error_message err, JNull))))"

definition AsyncMaybe ::
  "('t \<Rightarrow> ('e, 'u js) call) \<Rightarrow> ('e, 'i, 't) zod_schema \<Rightarrow> ('e, 'i) promise
     \<Rightarrow> ('e, string js \<times> 'u js) promise"
where
  "AsyncMaybe fn schema data =
     async_function
       (try_catch (try_block fn schema data)
          (\<lambda>error. Done (JVal ''Unknown error'', JNull)))"

section \<open>Schemas and transforms of the test suite\<close>

text \<open>
  JavaScript numbers are represented by exact rationals: the scenarios below add,
  compare and test small integers, where IEEE doubles are exact. \<open>NaN\<close>, the
  infinities and rounding are not represented.
\<close>

type_synonym number = rat

text \<open>
  Modelled from the spec: the schema \<open>z.array(z.number())\<close> of the external validation
  library (scenario 2, \<open>array<number>\<close>). The input is typed \<open>number[]\<close>; every such
  array conforms and is handed back as the validated data.
\<close>

definition numberArraySchema :: "(string, number list, number list) zod_schema" where
  "numberArraySchema =
     \<lparr> safeParse = (\<lambda>numbers. Returns (SafeParseSuccess numbers)),
       safeParseAsync = (\<lambda>numbers. Returns (Fulfilled (SafeParseSuccess numbers))) \<rparr>"

text \<open>\<^verbatim>\<open>const sum = (numbers: number[]) => numbers.reduce((a, b) => a + b, 0);\<close>\<close>

definition sum_fn :: "number list \<Rightarrow> (string, number js) call" where
  "sum_fn numbers = Returns (JVal (foldl (\<lambda>a b. a + b) 0 numbers))"

text \<open>
  The transform \<open>() => {}\<close> of the product example: it returns \<open>undefined\<close>.
\<close>

definition noop :: "number list \<Rightarrow> (string, unit js) call" where
  "noop numbers = Returns JUndefined"


text \<open>A transform that throws: \<open>() => { throw new Error('boom') }\<close>.\<close>

definition failing :: "number list \<Rightarrow> (string, number js) call" where
  "failing numbers = Throws ''boom''"

text \<open>A transform that never comes back: \<open>() => { for (;;) {} }\<close>.\<close>

definition looping :: "number list \<Rightarrow> (string, number js) call" where
  "looping numbers = Diverges"


text \<open>
  A schema whose failure outcome has no error object, the case that
  \<open>result.error?.message\<close> guards against.
\<close>

definition bareFailureSchema :: "(string, number list, number list) zod_schema" where
  "bareFailureSchema =
     \<lparr> safeParse = (\<lambda>numbers. Returns (SafeParseError None)),
       safeParseAsync = (\<lambda>numbers. Returns (Fulfilled (SafeParseError None))) \<rparr>"

section \<open>The engine's diagnostics\<close>

text \<open>
  Modelled from the spec: the diagnostics of the external validation engine, which is
  not part of the repository. The spec describes a failure outcome as the engine's
  aggregated description of one or more independent rule violations, each exposing a
  human-readable message, and its projection to a string as JSON-array-shaped. A
  schema is a list of independent rules; validation runs every rule and reports each
  violated one.
\<close>

datatype 'i rule = Rule (accepts: "'i \<Rightarrow> bool") (violation: string)

definition violated :: "'i rule list \<Rightarrow> 'i \<Rightarrow> 'i rule list" where
  "violated rules x = filter (\<lambda>r. \<not> accepts r x) rules"

definition diagnostics :: "'i rule list \<Rightarrow> 'i \<Rightarrow> string list" where
  "diagnostics rules x = map violation (violated rules x)"

text \<open>
  Modelled from the spec: the diagnostics-to-string projection, a JSON array with one
  object per violation, \<open>[{"message":"..."},{"message":"..."}]\<close>.
\<close>

definition quote :: char where
  "quote = CHR 0x22"

definition backslash :: char where
  "backslash = CHR 0x5C"

fun json_escape :: "string \<Rightarrow> string" where
  "json_escape [] = []"
| "json_escape (c # cs) =
     (if c = quote \<or> c = backslash then backslash # c # json_escape cs
      else c # json_escape cs)"

definition json_string :: "string \<Rightarrow> string" where
  "json_string s = quote # json_escape s @ [quote]"

definition json_issue :: "string \<Rightarrow> string" where
  "json_issue m = ''{'' @ json_string ''message'' @ '':'' @ json_string m @ ''}''"

fun json_items :: "string list \<Rightarrow> string" where
  "json_items [] = []"
| "json_items [item] = item"
| "json_items (item # items) = item @ '','' @ json_items items"

definition stringify_issues :: "string list \<Rightarrow> string" where
  "stringify_issues ms = ''['' @ json_items (map json_issue ms) @ '']''"

text \<open>
  Modelled from the spec: decoding the diagnostic string, as the test suite does with
  \<open>JSON.parse(error)\<close>, for strings of the shape above. \<open>None\<close> is a syntax error.
\<close>

fun expect :: "string \<Rightarrow> string \<Rightarrow> string option" where
  "expect [] cs = Some cs"
| "expect (p # ps) [] = None"
| "expect (p # ps) (c # cs) = (if p = c then expect ps cs else None)"

fun parse_string_body :: "string \<Rightarrow> (string \<times> string) option" where
  "parse_string_body [] = None"
| "parse_string_body (c # cs) =
     (if c = quote then Some ([], cs)
      else if c = backslash then
        (case cs of
           [] \<Rightarrow> None
         | d # ds \<Rightarrow> map_option (\<lambda>(s, rest). (d # s, rest)) (parse_string_body ds))
      else map_option (\<lambda>(s, rest). (c # s, rest)) (parse_string_body cs))"

definition parse_issue :: "string \<Rightarrow> (string \<times> string) option" where
  "parse_issue cs =
     (case expect (''{'' @ json_string ''message'' @ '':'' @ [quote]) cs of
        None \<Rightarrow> None
      | Some cs1 \<Rightarrow>
          (case parse_string_body cs1 of
             None \<Rightarrow> None
           | Some (m, cs2) \<Rightarrow> map_option (\<lambda>rest. (m, rest)) (expect ''}'' cs2)))"

function parse_items :: "string \<Rightarrow> string list option" where
  "parse_items cs =
     (case parse_issue cs of
        None \<Rightarrow> None
      | Some (m, rest) \<Rightarrow>
          (if rest = '']'' then Some [m]
           else case expect '','' rest of
                  None \<Rightarrow> None
                | Some rest' \<Rightarrow>
                    (case parse_items rest' of
                       None \<Rightarrow> None
                     | Some ms \<Rightarrow> Some (m # ms))))"
  by pat_completeness auto
termination
proof (relation "measure length")
  show "wf (measure length)" by simp
next
  fix cs parsed m rest rest'
  assume parsed: "parse_issue cs = Some parsed" "(m, rest) = parsed"
    and comma: "expect '','' rest = Some rest'"
  have expect_length: "length r \<le> length bs" if "expect p bs = Some r" for p bs r
    using that by (induction p bs rule: expect.induct) (auto split: if_splits)
  have body_length: "length r < length bs" if "parse_string_body bs = Some (s, r)" for bs s r
    using that
  proof (induction bs arbitrary: s r rule: parse_string_body.induct)
    case 1
    then show ?case by simp
  next
    case (2 c cs)
    then show ?case
      by (fastforce split: if_splits list.splits)
  qed
  from parsed have "parse_issue cs = Some (m, rest)" by simp
  then have "length rest < length cs"
    unfolding parse_issue_def
    by (auto split: option.splits dest!: expect_length body_length)
  moreover have "length rest' \<le> length rest"
    using comma by (rule expect_length)
  ultimately show "(rest', cs) \<in> measure length" by simp
qed

definition parse_issues :: "string \<Rightarrow> string list option" where
  "parse_issues cs =
     (case expect ''['' cs of
        None \<Rightarrow> None
      | Some rest \<Rightarrow> if rest = '']'' then Some [] else parse_items rest)"

text \<open>
  Modelled from the spec: the engine's \<open>safeValidate\<close> and \<open>safeValidateAsync\<close> for a
  schema given by its rules. Neither raises; success hands the input back as data,
  failure carries the projected diagnostics as the error's message.
\<close>

definition safeValidate :: "'i rule list \<Rightarrow> 'i \<Rightarrow> 'i safe_parse_return" where
  "safeValidate rules x =
     (if diagnostics rules x = [] then SafeParseSuccess x
      else SafeParseError (Some \<lparr> message = stringify_issues (diagnostics rules x) \<rparr>))"

definition rule_schema :: "'i rule list \<Rightarrow> ('e, 'i, 'i) zod_schema" where
  "rule_schema rules =
     \<lparr> safeParse = (\<lambda>x. Returns (safeValidate rules x)),
       safeParseAsync = (\<lambda>x. Returns (Fulfilled (safeValidate rules x))) \<rparr>"

text \<open>
  Modelled from the spec: the user schema of scenario 1 and of the test suite,
  \<^verbatim>\<open>
  const userSchema = z.object({
    name: z.string().min(2).max(50),
    age: z.number().int().positive(),
    email: z.string().email(),
  });
  \<close>
  with one rule per check and the engine's message for each. What makes an email
  valid is the engine's business: the check is a parameter.
\<close>

record user =
  name :: string
  age :: number
  email :: string

definition isInteger :: "number \<Rightarrow> bool" where
  "isInteger q = (of_int \<lfloor>q\<rfloor> = q)"

definition userRules :: "(string \<Rightarrow> bool) \<Rightarrow> user rule list" where
  "userRules is_email =
     [ Rule (\<lambda>u. 2 \<le> length (name u)) ''String must contain at least 2 character(s)'',
       Rule (\<lambda>u. length (name u) \<le> 50) ''String must contain at most 50 character(s)'',
       Rule (\<lambda>u. isInteger (age u)) ''Expected integer, received float'',
       Rule (\<lambda>u. 0 < age u) ''Number must be greater than 0'',
       Rule (\<lambda>u. is_email (email u)) ''Invalid email'' ]"

definition userSchema :: "(string \<Rightarrow> bool) \<Rightarrow> (string, user, user) zod_schema" where
  "userSchema is_email = rule_schema (userRules is_email)"

text \<open>The invalid user of scenario 1: \<open>{name: "A", age: -5, email: "invalid"}\<close>.\<close>

definition invalidUser :: user where
  "invalidUser = \<lparr> name = ''A'', age = - 5, email = ''invalid'' \<rparr>"

text \<open>A stand-in for the engine's email check: an address holds an \<open>@\<close>.\<close>

definition has_at :: "string \<Rightarrow> bool" where
  "has_at s = (CHR ''@'' \<in> set s)"

section \<open>The result pair\<close>

text \<open>Exactly one of the two slots holds something.\<close>

definition exactly_one :: "'a js \<times> 'b js \<Rightarrow> bool" where
  "exactly_one p = (absent (fst p) \<noteq> absent (snd p))"

text \<open>Whether a call came back with a value.\<close>

fun returned :: "('e, 'a) call \<Rightarrow> bool" where
  "returned (Returns v) = True"
| "returned (Throws e) = False"
| "returned Diverges = False"

text \<open>The three ways a promise can end.\<close>

fun fulfilled :: "('e, 'a) promise \<Rightarrow> bool" where
  "fulfilled (Fulfilled v) = True"
| "fulfilled (Rejected e) = False"
| "fulfilled Unsettled = False"

fun rejected :: "('e, 'a) promise \<Rightarrow> bool" where
  "rejected (Fulfilled v) = False"
| "rejected (Rejected e) = True"
| "rejected Unsettled = False"

definition settled :: "('e, 'a) promise \<Rightarrow> bool" where
  "settled p = (fulfilled p \<or> rejected p)"

section \<open>How each path of the two functions ends\<close>

lemma Maybe_success:
  "safeParse schema x = Returns (SafeParseSuccess d) \<Longrightarrow> fn d = Returns v \<Longrightarrow>
     Maybe fn schema x = Returns (JNull, v)"
  by (simp add: Maybe_def)

lemma Maybe_transform_throws:
  "safeParse schema x = Returns (SafeParseSuccess d) \<Longrightarrow> fn d = Throws thrown \<Longrightarrow>
     Maybe fn schema x = Throws thrown"
  by (simp add: Maybe_def)

lemma Maybe_failure:
  "safeParse schema x = Returns (SafeParseError err) \<Longrightarrow>
     Maybe fn schema x = Returns (error_message err, JNull)"
  by (simp add: Maybe_def)

lemma Maybe_parse_throws:
  "safeParse schema x = Throws thrown \<Longrightarrow> Maybe fn schema x = Throws thrown"
  by (simp add: Maybe_def)

lemma AsyncMaybe_rejected:
  "AsyncMaybe fn schema (Rejected cause) = Fulfilled (JVal ''Unknown error'', JNull)"
  by (simp add: AsyncMaybe_def try_block_def)

lemma AsyncMaybe_unsettled:
  "AsyncMaybe fn schema Unsettled = Unsettled"
  by (simp add: AsyncMaybe_def try_block_def)

lemma AsyncMaybe_parse_throws:
  "safeParseAsync schema x = Throws thrown \<Longrightarrow>
     AsyncMaybe fn schema (Fulfilled x) = Fulfilled (JVal ''Unknown error'', JNull)"
  by (simp add: AsyncMaybe_def try_block_def)

lemma AsyncMaybe_validation_rejected:
  "safeParseAsync schema x = Returns (Rejected cause) \<Longrightarrow>
     AsyncMaybe fn schema (Fulfilled x) = Fulfilled (JVal ''Unknown error'', JNull)"
  by (simp add: AsyncMaybe_def try_block_def)

lemma AsyncMaybe_validation_unsettled:
  "safeParseAsync schema x = Returns Unsettled \<Longrightarrow>
     AsyncMaybe fn schema (Fulfilled x) = Unsettled"
  by (simp add: AsyncMaybe_def try_block_def)


lemma AsyncMaybe_transform_throws:
  "safeParseAsync schema x = Returns (Fulfilled (SafeParseSuccess d)) \<Longrightarrow> fn d = Throws thrown \<Longrightarrow>
     AsyncMaybe fn schema (Fulfilled x) = Fulfilled (JVal ''Unknown error'', JNull)"
  by (simp add: AsyncMaybe_def try_block_def)

lemma AsyncMaybe_transform_diverges:
  "safeParseAsync schema x = Returns (Fulfilled (SafeParseSuccess d)) \<Longrightarrow> fn d = Diverges \<Longrightarrow>
     AsyncMaybe fn schema (Fulfilled x) = Unsettled"
  by (simp add: AsyncMaybe_def try_block_def)

lemma AsyncMaybe_parse_diverges:
  "safeParseAsync schema x = Diverges \<Longrightarrow> AsyncMaybe fn schema (Fulfilled x) = Unsettled"
  by (simp add: AsyncMaybe_def try_block_def)

lemma AsyncMaybe_failure:
  "safeParseAsync schema x = Returns (Fulfilled (SafeParseError err)) \<Longrightarrow>
     AsyncMaybe fn schema (Fulfilled x) = Fulfilled (error_message err, JNull)"
  by (simp add: AsyncMaybe_def try_block_def)

lemma absent_error_message: "absent (error_message err) = (err = None)"
  by (cases err) simp_all

section \<open>Decoding inverts the projection\<close>

lemma expect_append: "expect p (p @ cs) = Some cs"
  by (induction p) simp_all

lemma parse_string_body_escape:
  "parse_string_body (json_escape s @ quote # rest) = Some (s, rest)"
  by (induction s) (simp_all add: quote_def backslash_def)

lemma parse_issue_json_issue: "parse_issue (json_issue m @ rest) = Some (m, rest)"
proof -
  have "json_issue m @ rest =
      (''{'' @ json_string ''message'' @ '':'' @ [quote]) @ json_escape m @ quote # ''}'' @ rest"
    by (simp add: json_issue_def json_string_def)
  then show ?thesis
    unfolding parse_issue_def
    by (simp only: expect_append parse_string_body_escape option.case prod.case)
       simp
qed

lemma json_issue_nonempty: "json_issue m \<noteq> []"
  by (simp add: json_issue_def)

lemma parse_items_json_items:
  "ms \<noteq> [] \<Longrightarrow> parse_items (json_items (map json_issue ms) @ '']'') = Some ms"
proof (induction ms)
  case Nil
  then show ?case by simp
next
  case (Cons m ms)
  show ?case
  proof (cases ms)
    case Nil
    then show ?thesis
      using parse_issue_json_issue [of m "'']''"]
      by (subst parse_items.simps) simp
  next
    case (Cons m' ms')
    then have step: "json_items (map json_issue (m # ms)) @ '']'' =
        json_issue m @ '','' @ json_items (map json_issue ms) @ '']''"
      by simp
    from Cons Cons.IH have "parse_items (json_items (map json_issue ms) @ '']'') = Some ms"
      by simp
    then show ?thesis
      unfolding step
      using parse_issue_json_issue [of m "'','' @ json_items (map json_issue ms) @ '']''"]
      by (subst parse_items.simps) simp
  qed
qed

lemma parse_stringify_issues: "parse_issues (stringify_issues ms) = Some ms"
proof (cases ms)
  case Nil
  then show ?thesis by (simp add: parse_issues_def stringify_issues_def)
next
  case (Cons m ms')
  then have "json_items (map json_issue ms) @ '']'' \<noteq> '']''"
    using json_issue_nonempty [of m] by (cases ms') auto
  then show ?thesis
    using parse_items_json_items [of ms] Cons
    by (simp add: parse_issues_def stringify_issues_def)
qed

lemma Maybe_rule_schema_failure:
  "diagnostics rules x \<noteq> [] \<Longrightarrow>
     Maybe fn (rule_schema rules) x = Returns (JVal (stringify_issues (diagnostics rules x)), JNull)"
  by (simp add: Maybe_def rule_schema_def safeValidate_def)

lemma isInteger_of_int: "isInteger (of_int n)"
  by (simp add: isInteger_def)

lemma isInteger_age_invalidUser: "isInteger (age invalidUser)"
  using isInteger_of_int [of "- 5"] by (simp add: invalidUser_def)

lemma diagnostics_invalidUser:
  "\<not> is_email ''invalid'' \<Longrightarrow>
     diagnostics (userRules is_email) invalidUser =
       [''String must contain at least 2 character(s)'',
        ''Number must be greater than 0'',
        ''Invalid email'']"
  using isInteger_age_invalidUser
  by (simp add: diagnostics_def violated_def userRules_def) (simp add: invalidUser_def)

lemma AsyncMaybe_cases:
  "AsyncMaybe fn schema data =
     (case data of
        Rejected cause \<Rightarrow> Fulfilled (JVal ''Unknown error'', JNull)
      | Unsettled \<Rightarrow> Unsettled
      | Fulfilled x \<Rightarrow>
          (case safeParseAsync schema x of
             Throws thrown \<Rightarrow> Fulfilled (JVal ''Unknown error'', JNull)
           | Diverges \<Rightarrow> Unsettled
           | Returns pending \<Rightarrow>
               (case pending of
                  Rejected cause \<Rightarrow> Fulfilled (JVal ''Unknown error'', JNull)
                | Unsettled \<Rightarrow> Unsettled
                | Fulfilled result \<Rightarrow>
                    (case result of
                       SafeParseSuccess d \<Rightarrow>
                         (case fn d of
                            Throws thrown \<Rightarrow> Fulfilled (JVal ''Unknown error'', JNull)
                          | Diverges \<Rightarrow> Unsettled
                          | Returns v \<Rightarrow> Fulfilled (JNull, v))
                     | SafeParseError err \<Rightarrow> Fulfilled (error_message err, JNull)))))"
  by (simp add: AsyncMaybe_def try_block_def
      split: promise.split call.split safe_parse_return.split)

lemma Maybe_never_both:
  "Maybe fn schema x = Returns (e, v) \<Longrightarrow> \<not> (present e \<and> present v)"
  by (auto simp: Maybe_def present_def split: call.splits safe_parse_return.splits)

lemma Maybe_exactly_one:
  assumes "Maybe fn schema x = Returns (e, v)"
    and "\<forall>d w. safeParse schema x = Returns (SafeParseSuccess d) \<and> fn d = Returns w \<longrightarrow> present w"
    and "safeParse schema x \<noteq> Returns (SafeParseError None)"
  shows "exactly_one (e, v)"
  using assms
  by (auto simp: Maybe_def present_def exactly_one_def absent_error_message
      split: call.splits safe_parse_return.splits)

lemma AsyncMaybe_never_both:
  "AsyncMaybe fn schema data = Fulfilled (e, v) \<Longrightarrow> \<not> (present e \<and> present v)"
  by (auto simp: AsyncMaybe_cases present_def
      split: promise.splits call.splits safe_parse_return.splits)

lemma AsyncMaybe_exactly_one:
  assumes "AsyncMaybe fn schema data = Fulfilled (e, v)"
    and "\<forall>y d w. data = Fulfilled y
           \<and> safeParseAsync schema y = Returns (Fulfilled (SafeParseSuccess d)) \<and> fn d = Returns w
         \<longrightarrow> present w"
    and "\<forall>y. data = Fulfilled y
         \<longrightarrow> safeParseAsync schema y \<noteq> Returns (Fulfilled (SafeParseError None))"
  shows "exactly_one (e, v)"
  using assms
  by (auto simp: AsyncMaybe_cases present_def exactly_one_def absent_error_message
      split: promise.splits call.splits safe_parse_return.splits)

lemma AsyncMaybe_not_rejected: "\<not> rejected (AsyncMaybe fn schema data)"
  by (simp add: AsyncMaybe_cases split: promise.split call.split safe_parse_return.split)

lemma AsyncMaybe_fulfilled_iff:
  "fulfilled (AsyncMaybe fn schema data) =
     (settled data
      \<and> (\<forall>y. data = Fulfilled y \<longrightarrow> safeParseAsync schema y \<noteq> Diverges)
      \<and> (\<forall>y pending. data = Fulfilled y \<and> safeParseAsync schema y = Returns pending
            \<longrightarrow> settled pending)
      \<and> (\<forall>y d. data = Fulfilled y
              \<and> safeParseAsync schema y = Returns (Fulfilled (SafeParseSuccess d))
            \<longrightarrow> fn d \<noteq> Diverges))"
proof (cases data)
  case (Fulfilled y)
  show ?thesis
  proof (cases "safeParseAsync schema y")
    case (Returns pending)
    show ?thesis
    proof (cases pending)
      case inner: (Fulfilled result)
      show ?thesis
      proof (cases result)
        case (SafeParseSuccess d)
        with Fulfilled Returns inner show ?thesis
          by (cases "fn d") (simp_all add: AsyncMaybe_cases settled_def)
      next
        case (SafeParseError err)
        with Fulfilled Returns inner show ?thesis
          by (simp add: AsyncMaybe_cases settled_def)
      qed
    next
      case (Rejected cause)
      with Fulfilled Returns show ?thesis
        by (simp add: AsyncMaybe_cases settled_def)
    next
      case Unsettled
      with Fulfilled Returns show ?thesis
        by (simp add: AsyncMaybe_cases settled_def)
    qed
  next
    case (Throws thrown)
    with Fulfilled show ?thesis
      by (simp add: AsyncMaybe_cases settled_def)
  next
    case Diverges
    with Fulfilled show ?thesis
      by (simp add: AsyncMaybe_cases settled_def)
  qed
next
  case (Rejected cause)
  then show ?thesis
    by (simp add: AsyncMaybe_cases settled_def)
next
  case Unsettled
  then show ?thesis
    by (simp add: AsyncMaybe_cases settled_def)
qed

section \<open>The claims\<close>

text \<open>
  C1, as amended. The pair that \<open>Maybe\<close> returns, and the pair that the promise of
  \<open>AsyncMaybe\<close> is fulfilled with, never has both slots present. It has exactly one
  slot present whenever the transform, where validation succeeds, returns something
  other than \<open>null\<close> and \<open>undefined\<close>, and the failure outcome, where validation fails,
  carries its error object.
\<close>

theorem result_pair_exclusivity:
  "(Maybe fn schema x = Returns (e, v) \<longrightarrow>
      \<not> (present e \<and> present v) \<and>
      ((\<forall>d w. safeParse schema x = Returns (SafeParseSuccess d) \<and> fn d = Returns w \<longrightarrow> present w)
        \<and> safeParse schema x \<noteq> Returns (SafeParseError None)
       \<longrightarrow> exactly_one (e, v)))
   \<and>
   (AsyncMaybe fn' schema' data = Fulfilled (e', v') \<longrightarrow>
      \<not> (present e' \<and> present v') \<and>
      ((\<forall>y d w. data = Fulfilled y
            \<and> safeParseAsync schema' y = Returns (Fulfilled (SafeParseSuccess d)) \<and> fn' d = Returns w
          \<longrightarrow> present w)
        \<and> (\<forall>y. data = Fulfilled y
              \<longrightarrow> safeParseAsync schema' y \<noteq> Returns (Fulfilled (SafeParseError None)))
       \<longrightarrow> exactly_one (e', v')))"
  using Maybe_never_both [of fn schema x e v] Maybe_exactly_one [of fn schema x e v]
    AsyncMaybe_never_both [of fn' schema' data e' v']
    AsyncMaybe_exactly_one [of fn' schema' data e' v']
  by blast

theorem result_pair_exclusivity_witness:
  "Maybe sum_fn numberArraySchema [1, 2, 3, 4, 5] = Returns (JNull, JVal 15)
   \<and> exactly_one (JNull :: string js, JVal (15 :: number))
   \<and> AsyncMaybe sum_fn numberArraySchema (Fulfilled [1, 2, 3, 4, 5]) = Fulfilled (JNull, JVal 15)"
  using result_pair_exclusivity [where fn = sum_fn and schema = numberArraySchema
      and x = "[1, 2, 3, 4, 5]" and e = JNull and v = "JVal 15"
      and fn' = sum_fn and schema' = numberArraySchema
      and data = "Fulfilled [1, 2, 3, 4, 5]" and e' = JNull and v' = "JVal 15"]
  by (simp add: Maybe_def AsyncMaybe_cases numberArraySchema_def sum_fn_def
      exactly_one_def)

text \<open>
  C1 as stated fails: on a conforming input the transform \<open>() => {}\<close> gives the pair
  \<open>[null, undefined]\<close>, in which nothing is present.
\<close>

theorem result_pair_both_absent:
  "Maybe noop numberArraySchema [1, 2, 3] = Returns (JNull, JUndefined)
   \<and> \<not> exactly_one (JNull :: string js, JUndefined :: unit js)"
  by (simp add: Maybe_def numberArraySchema_def noop_def exactly_one_def)

text \<open>
  C2. If the input conforms to the schema, so that \<open>safeParse\<close> reports success with the
  validated data, and the transform returns a value on that data, \<open>Maybe\<close> returns
  \<open>null\<close> in the error slot and the transform's result in the value slot. With the
  schema array-of-number and the transform \<open>sum\<close>, the input \<open>[1, 2, 3, 4, 5]\<close> gives
  \<open>[null, 15]\<close>.
\<close>

theorem round_trip_success:
  "(safeParse schema x = Returns (SafeParseSuccess d) \<and> fn d = Returns v
      \<longrightarrow> Maybe fn schema x = Returns (JNull, v))
   \<and> Maybe sum_fn numberArraySchema [1, 2, 3, 4, 5] = Returns (JNull, JVal 15)"
proof
  show "safeParse schema x = Returns (SafeParseSuccess d) \<and> fn d = Returns v
      \<longrightarrow> Maybe fn schema x = Returns (JNull, v)"
    using Maybe_success [of schema x d fn v] by blast
next
  have "safeParse numberArraySchema [1, 2, 3, 4, 5] = Returns (SafeParseSuccess [1, 2, 3, 4, 5])"
    by (simp add: numberArraySchema_def)
  moreover have "sum_fn [1, 2, 3, 4, 5] = Returns (JVal 15)"
    by (simp add: sum_fn_def)
  ultimately show "Maybe sum_fn numberArraySchema [1, 2, 3, 4, 5] = Returns (JNull, JVal 15)"
    by (rule Maybe_success)
qed

theorem round_trip_success_witness:
  "safeParse numberArraySchema [1, 2, 3, 4, 5] = Returns (SafeParseSuccess [1, 2, 3, 4, 5])
   \<and> sum_fn [1, 2, 3, 4, 5] = Returns (JVal 15)
   \<and> Maybe sum_fn numberArraySchema [1, 2, 3, 4, 5] = Returns (JNull, JVal 15)"
  using round_trip_success [where schema = numberArraySchema and x = "[1, 2, 3, 4, 5]"
      and d = "[1, 2, 3, 4, 5]" and fn = sum_fn and v = "JVal 15"]
  by (simp add: numberArraySchema_def sum_fn_def)

text \<open>
  C3. If the pending input is rejected, whatever the cause, the promise that
  \<open>AsyncMaybe\<close> returns is fulfilled with exactly \<open>['Unknown error', null]\<close>; the cause
  does not appear in the result.
\<close>

theorem resolution_failure_coalescing:
  "AsyncMaybe fn schema (Rejected cause) = Fulfilled (JVal ''Unknown error'', JNull)"
  by (rule AsyncMaybe_rejected)



text \<open>
  C5, as amended. In \<open>AsyncMaybe\<close> the call of the transform stands inside the \<open>try\<close>
  block. If the pending input is fulfilled with a conforming value and the transform
  throws on the validated data, the exception is caught and the promise is fulfilled
  with \<open>['Unknown error', null]\<close>.
\<close>

theorem async_transform_failure_caught:
  "safeParseAsync schema x = Returns (Fulfilled (SafeParseSuccess d)) \<and> fn d = Throws thrown
     \<longrightarrow> AsyncMaybe fn schema (Fulfilled x) = Fulfilled (JVal ''Unknown error'', JNull)"
  using AsyncMaybe_transform_throws [of schema x d fn thrown] by blast

theorem async_transform_failure_caught_witness:
  "safeParseAsync numberArraySchema [4, 5] = Returns (Fulfilled (SafeParseSuccess [4, 5]))
   \<and> failing [4, 5] = Throws ''boom''
   \<and> AsyncMaybe failing numberArraySchema (Fulfilled [4, 5])
       = Fulfilled (JVal ''Unknown error'', JNull)"
  using async_transform_failure_caught [where schema = numberArraySchema and x = "[4, 5]"
      and d = "[4, 5]" and fn = failing and thrown = "''boom''"]
  by (simp add: numberArraySchema_def failing_def)

text \<open>
  C5 as stated fails: with a transform that throws, the promise of \<open>AsyncMaybe\<close> is not
  rejected; it is fulfilled with the sentinel pair.
\<close>

theorem async_transform_failure_not_rejected:
  "failing [1, 2, 3] = Throws ''boom''
   \<and> AsyncMaybe failing numberArraySchema (Fulfilled [1, 2, 3])
       = Fulfilled (JVal ''Unknown error'', JNull)
   \<and> \<not> rejected (AsyncMaybe failing numberArraySchema (Fulfilled [1, 2, 3]))"
  by (simp add: AsyncMaybe_cases numberArraySchema_def failing_def)

text \<open>
  C6. In \<open>Maybe\<close> nothing catches the transform: if the input conforms and the
  transform throws on the validated data, the call of the validator throws the same
  value, and no pair is returned.
\<close>

theorem sync_transform_failure_propagates:
  "safeParse schema x = Returns (SafeParseSuccess d) \<and> fn d = Throws thrown
     \<longrightarrow> Maybe fn schema x = Throws thrown \<and> \<not> returned (Maybe fn schema x)"
  using Maybe_transform_throws [of schema x d fn thrown] by auto

theorem sync_transform_failure_propagates_witness:
  "safeParse numberArraySchema [1, 2, 3] = Returns (SafeParseSuccess [1, 2, 3])
   \<and> failing [1, 2, 3] = Throws ''boom''
   \<and> Maybe failing numberArraySchema [1, 2, 3] = Throws ''boom''"
  using sync_transform_failure_propagates [where schema = numberArraySchema
      and x = "[1, 2, 3]" and d = "[1, 2, 3]" and fn = failing and thrown = "''boom''"]
  by (simp add: numberArraySchema_def failing_def)

text \<open>
  C8. If validation fails and the failure outcome has no error object, \<open>Maybe\<close>
  returns \<open>undefined\<close> in the error slot and \<open>null\<close> in the value slot: both are absent,
  and no message is made up.
\<close>

theorem missing_error_object:
  "safeParse schema x = Returns (SafeParseError None)
     \<longrightarrow> Maybe fn schema x = Returns (JUndefined, JNull)
         \<and> absent (JUndefined :: string js) \<and> absent (JNull :: 'u js)"
  using Maybe_failure [of schema x None fn] by simp

theorem missing_error_object_witness:
  "safeParse bareFailureSchema [1, 2, 3] = Returns (SafeParseError None)
   \<and> Maybe sum_fn bareFailureSchema [1, 2, 3] = Returns (JUndefined, JNull)"
  using missing_error_object [where schema = bareFailureSchema and x = "[1, 2, 3]"
      and fn = sum_fn]
  by (simp add: bareFailureSchema_def)

text \<open>
  C9, as amended. The promise that \<open>AsyncMaybe\<close> returns is never rejected. Whatever
  is thrown inside the \<open>try\<close> block becomes the pair \<open>['Unknown error', null]\<close>, and the
  call of the transform is inside that block. The promise is fulfilled with a pair
  exactly when nothing inside the block goes on for ever: the pending input settles
  and, if it is fulfilled, the call of \<open>safeParseAsync\<close> comes back, the promise it
  returns settles, and, if validation succeeds, the call of the transform comes back
  (by returning or by throwing).
\<close>

theorem async_never_rejects:
  "\<not> rejected (AsyncMaybe fn schema data)
   \<and> (try_block fn schema data = Raised thrown
        \<longrightarrow> AsyncMaybe fn schema data = Fulfilled (JVal ''Unknown error'', JNull))
   \<and> (safeParseAsync schema x = Returns (Fulfilled (SafeParseSuccess d)) \<and> fn d = Throws thrown
        \<longrightarrow> try_block fn schema (Fulfilled x) = Raised thrown)
   \<and> (fulfilled (AsyncMaybe fn schema data) =
        (settled data
         \<and> (\<forall>y. data = Fulfilled y \<longrightarrow> safeParseAsync schema y \<noteq> Diverges)
         \<and> (\<forall>y pending. data = Fulfilled y \<and> safeParseAsync schema y = Returns pending
               \<longrightarrow> settled pending)
         \<and> (\<forall>y d. data = Fulfilled y
                 \<and> safeParseAsync schema y = Returns (Fulfilled (SafeParseSuccess d))
               \<longrightarrow> fn d \<noteq> Diverges)))"
proof -
  have "try_block fn schema data = Raised thrown
      \<longrightarrow> AsyncMaybe fn schema data = Fulfilled (JVal ''Unknown error'', JNull)"
    by (simp add: AsyncMaybe_def)
  moreover have "safeParseAsync schema x = Returns (Fulfilled (SafeParseSuccess d))
      \<and> fn d = Throws thrown \<longrightarrow> try_block fn schema (Fulfilled x) = Raised thrown"
    by (simp add: try_block_def)
  ultimately show ?thesis
    using AsyncMaybe_not_rejected [of fn schema data]
      AsyncMaybe_fulfilled_iff [of fn schema data]
    by blast
qed

theorem async_never_rejects_witness:
  "\<not> rejected (AsyncMaybe failing numberArraySchema (Fulfilled [1, 2]))
   \<and> try_block failing numberArraySchema (Fulfilled [1, 2]) = Raised ''boom''
   \<and> AsyncMaybe failing numberArraySchema (Fulfilled [1, 2])
       = Fulfilled (JVal ''Unknown error'', JNull)
   \<and> settled (Fulfilled [1, 2 :: number] :: (string, number list) promise)
   \<and> fulfilled (AsyncMaybe failing numberArraySchema (Fulfilled [1, 2]))"
  using async_never_rejects [where fn = failing and schema = numberArraySchema
      and data = "Fulfilled [1, 2]" and thrown = "''boom''" and x = "[1, 2]" and d = "[1, 2]"]
  by (simp add: numberArraySchema_def failing_def settled_def)

text \<open>
  C9 as stated fails: on a pending input that never settles, the promise of
  \<open>AsyncMaybe\<close> never settles either, so it is not fulfilled. The same happens on
  \<open>Promise.resolve([1])\<close> with a transform that never comes back.
\<close>

theorem async_unsettled_input_not_fulfilled:
  "AsyncMaybe sum_fn numberArraySchema Unsettled = Unsettled
   \<and> \<not> fulfilled (AsyncMaybe sum_fn numberArraySchema Unsettled)
   \<and> AsyncMaybe looping numberArraySchema (Fulfilled [1]) = Unsettled
   \<and> \<not> fulfilled (AsyncMaybe looping numberArraySchema (Fulfilled [1]))"
  by (simp add: AsyncMaybe_cases numberArraySchema_def looping_def)

text \<open>
  C10. If validation fails, the result of \<open>Maybe\<close> is the same for any two
  transforms: the transform is not called on the failure path.
\<close>

theorem failure_ignores_transform:
  "safeParse schema x = Returns (SafeParseError err) \<longrightarrow> Maybe f schema x = Maybe g schema x"
  using Maybe_failure [of schema x err f] Maybe_failure [of schema x err g] by simp

theorem failure_ignores_transform_witness:
  "safeParse (userSchema has_at) invalidUser
     = Returns (SafeParseError (Some \<lparr> message = stringify_issues
         [''String must contain at least 2 character(s)'',
          ''Number must be greater than 0'',
          ''Invalid email''] \<rparr>))
   \<and> Maybe (\<lambda>u. Returns (JVal (name u))) (userSchema has_at) invalidUser
       = Maybe (\<lambda>u. Throws ''boom'') (userSchema has_at) invalidUser"
  using failure_ignores_transform [where schema = "userSchema has_at" and x = invalidUser
      and f = "\<lambda>u. Returns (JVal (name u))" and g = "\<lambda>u. Throws ''boom''"]
    diagnostics_invalidUser [of has_at]
  by (simp add: userSchema_def rule_schema_def safeValidate_def has_at_def)

text \<open>
  C7. For the engine as the spec describes it, an input that violates one or more
  independent rules makes \<open>Maybe\<close> return a string in the error slot and \<open>null\<close> in the
  value slot; the string decodes, and the decoded collection has exactly one entry
  per violated rule (as a multiset: the messages of the violated rules). For the user
  schema, the input \<open>{name: "A", age: -5, email: "invalid"}\<close> gives an error string that
  decodes to three entries, provided the engine's email check refuses \<open>"invalid"\<close>.
\<close>

theorem diagnostic_aggregation:
  "(violated rules x \<noteq> [] \<longrightarrow>
      (\<exists>m ds. Maybe fn (rule_schema rules) x = Returns (JVal m, JNull)
         \<and> parse_issues m = Some ds
         \<and> length ds = length (violated rules x)
         \<and> mset ds = mset (map violation (violated rules x))))
   \<and>
   (\<not> is_email ''invalid'' \<longrightarrow>
      (\<exists>m ds. Maybe fn' (userSchema is_email) invalidUser = Returns (JVal m, JNull)
         \<and> parse_issues m = Some ds
         \<and> length ds = 3))"
proof (intro conjI impI)
  assume "violated rules x \<noteq> []"
  then have "diagnostics rules x \<noteq> []"
    by (simp add: diagnostics_def)
  then have "Maybe fn (rule_schema rules) x
      = Returns (JVal (stringify_issues (diagnostics rules x)), JNull)"
    by (rule Maybe_rule_schema_failure)
  moreover have "parse_issues (stringify_issues (diagnostics rules x))
      = Some (diagnostics rules x)"
    by (rule parse_stringify_issues)
  moreover have "length (diagnostics rules x) = length (violated rules x)"
    and "mset (diagnostics rules x) = mset (map violation (violated rules x))"
    by (simp_all add: diagnostics_def)
  ultimately show "\<exists>m ds. Maybe fn (rule_schema rules) x = Returns (JVal m, JNull)
      \<and> parse_issues m = Some ds
      \<and> length ds = length (violated rules x)
      \<and> mset ds = mset (map violation (violated rules x))"
    by blast
next
  assume "\<not> is_email ''invalid''"
  then have found: "diagnostics (userRules is_email) invalidUser =
      [''String must contain at least 2 character(s)'',
       ''Number must be greater than 0'',
       ''Invalid email'']"
    by (rule diagnostics_invalidUser)
  then have "diagnostics (userRules is_email) invalidUser \<noteq> []"
    by simp
  then have "Maybe fn' (userSchema is_email) invalidUser
      = Returns (JVal (stringify_issues (diagnostics (userRules is_email) invalidUser)), JNull)"
    unfolding userSchema_def by (rule Maybe_rule_schema_failure)
  moreover have "parse_issues (stringify_issues (diagnostics (userRules is_email) invalidUser))
      = Some (diagnostics (userRules is_email) invalidUser)"
    by (rule parse_stringify_issues)
  moreover have "length (diagnostics (userRules is_email) invalidUser) = 3"
    by (simp add: found)
  ultimately show "\<exists>m ds. Maybe fn' (userSchema is_email) invalidUser = Returns (JVal m, JNull)
      \<and> parse_issues m = Some ds
      \<and> length ds = 3"
    by blast
qed

theorem diagnostic_aggregation_witness:
  "length (violated (userRules has_at) invalidUser) = 3
   \<and> Maybe (\<lambda>u. Returns (JVal (name u))) (userSchema has_at) invalidUser
       = Returns (JVal (stringify_issues
           [''String must contain at least 2 character(s)'',
            ''Number must be greater than 0'',
            ''Invalid email'']), JNull)
   \<and> parse_issues (stringify_issues
           [''String must contain at least 2 character(s)'',
            ''Number must be greater than 0'',
            ''Invalid email''])
       = Some [''String must contain at least 2 character(s)'',
            ''Number must be greater than 0'',
            ''Invalid email'']"
proof -
  have refused: "\<not> has_at ''invalid''"
    by (simp add: has_at_def)
  have found: "diagnostics (userRules has_at) invalidUser =
      [''String must contain at least 2 character(s)'',
       ''Number must be greater than 0'',
       ''Invalid email'']"
    using refused by (rule diagnostics_invalidUser)
  have "length (diagnostics (userRules has_at) invalidUser)
      = length (violated (userRules has_at) invalidUser)"
    by (simp add: diagnostics_def)
  with found have three: "length (violated (userRules has_at) invalidUser) = 3"
    by simp
  then have some: "violated (userRules has_at) invalidUser \<noteq> []"
    by auto
  from diagnostic_aggregation [where rules = "userRules has_at" and x = invalidUser
      and fn = "\<lambda>u. Returns (JVal (name u)) :: (string, string js) call" and is_email = has_at
      and fn' = "\<lambda>u. Returns (JVal (name u)) :: (string, string js) call"] some refused
  obtain m ds where
    "Maybe (\<lambda>u. Returns (JVal (name u)) :: (string, string js) call) (userSchema has_at) invalidUser
       = Returns (JVal m, JNull)"
    and "parse_issues m = Some ds" and "length ds = 3"
    by blast
  moreover have "Maybe (\<lambda>u. Returns (JVal (name u)) :: (string, string js) call)
      (userSchema has_at) invalidUser
      = Returns (JVal (stringify_issues (diagnostics (userRules has_at) invalidUser)), JNull)"
    unfolding userSchema_def using found by (intro Maybe_rule_schema_failure) simp
  ultimately have "m = stringify_issues (diagnostics (userRules has_at) invalidUser)"
    by simp
  with \<open>parse_issues m = Some ds\<close> \<open>length ds = 3\<close> three found
    \<open>Maybe (\<lambda>u. Returns (JVal (name u))) (userSchema has_at) invalidUser = Returns (JVal m, JNull)\<close>
  show ?thesis
    by (simp add: parse_stringify_issues)
qed

end
